theory Spec2Isabelle
  imports Main "HOL-Library.Char_ord" "HOL-Library.List_Lexorder" "HOL-Library.Multiset"
begin

section \<open>Configuration (functions/config/settings.js)\<close>

text \<open>
  The two constant objects \<^verbatim>\<open>GENESIS_PROTOCOL\<close> and \<^verbatim>\<open>SECURITY\<close>: the entries
  that bear on a registration, the number of biometric layers and the numbers of shards.
\<close>

definition MIN_AUTH_LAYERS :: nat where
  "MIN_AUTH_LAYERS = 3"

definition CNIC_SHARDS_TOTAL :: nat where
  "CNIC_SHARDS_TOTAL = 5"

definition CNIC_SHARDS_REQUIRED :: nat where
  "CNIC_SHARDS_REQUIRED = 3"

section \<open>The stored record (functions/models/User.js and the controller)\<close>

text \<open>
  The \<^verbatim>\<open>enum\<close> of \<^verbatim>\<open>UserSchema.status\<close>.
\<close>

datatype status = ACTIVE | FROZEN | PENDING_VERIFICATION

text \<open>
  The object literal \<^verbatim>\<open>biometricData\<close> of the controller: five properties, always in
  this order. A property whose value the request did not carry is \<^verbatim>\<open>undefined\<close>,
  here \<open>None\<close>.
\<close>

record biometricData =
  fingerprintHash :: "string option"
  irisHash :: "string option"
  facialHash :: "string option"
  voiceHash :: "string option"
  behavioralPattern :: "string option"

text \<open>
  \<^verbatim>\<open>req.body\<close>: the five hashes and \<^verbatim>\<open>cnicShards\<close>, an array of strings when present
  (the schema's \<^verbatim>\<open>[String]\<close>). The field is named \<open>req_cnicShards\<close> to keep it apart from
  the field of the stored record. The controller does not check the type of
  \<^verbatim>\<open>cnicShards\<close>: a body whose \<^verbatim>\<open>cnicShards\<close> is a JSON value of another kind (a
  string, whose first character \<^verbatim>\<open>cnicShards[0]\<close> then is, a number, an object) has no
  counterpart in this type, and nothing below speaks of such a body.
\<close>

record body = biometricData +
  req_cnicShards :: "string list option"

text \<open>
  \<^verbatim>\<open>newUserRecord\<close>, the object the controller hands to Firestore. \<open>createdAt\<close> is
  the server's time stamp, a number here.
\<close>

record newUserRecord =
  superID :: string
  biometricHashes :: biometricData
  cnicShards :: "string list"
  status :: status
  createdAt :: nat

text \<open>
  The validator of \<^verbatim>\<open>UserSchema.cnicShards\<close>:
  \<^verbatim>\<open>val => val.length === SECURITY.CNIC_SHARDS_TOTAL\<close>.
\<close>

definition UserSchema_cnicShards_validate :: "string list \<Rightarrow> bool" where
  "UserSchema_cnicShards_validate val \<longleftrightarrow> length val = CNIC_SHARDS_TOTAL"

section \<open>The controller (functions/controllers/identityController.js)\<close>

text \<open>
  What the \<^verbatim>\<open>try\<close> block of the controller can throw, by tag: a TypeError of its
  own, what the hash helper throws, or the error with which the Firestore client refuses
  a write. The \<^verbatim>\<open>catch\<close> turns each into a response of status 500.
\<close>

datatype error = TypeError | InsufficientLayers | FirestoreError

datatype response = Created string | InternalError error

text \<open>
  The collection \<^verbatim>\<open>adanid_users\<close>: documents by document id.
\<close>

type_synonym ledger = "string \<rightharpoonup> newUserRecord"

text \<open>
  What Firestore takes as the id of a document of a collection: a string that is not
  empty, holds no slash, is neither \<^verbatim>\<open>.\<close> nor \<^verbatim>\<open>..\<close>, is not of the reserved form
  \<^verbatim>\<open>__.*__\<close> and is at most 1500 bytes long. The client's \<^verbatim>\<open>doc\<close> throws on the empty
  string and on a path that names no document; the other constraints are those the
  service sets on a document id, and a write that breaks one is rejected.
\<close>

definition validDocumentId :: "string \<Rightarrow> bool" where
  "validDocumentId docId \<longleftrightarrow>
     docId \<noteq> [] \<and> CHR ''/'' \<notin> set docId \<and> docId \<noteq> ''.'' \<and> docId \<noteq> ''..''
     \<and> \<not> (4 \<le> length docId \<and> take 2 docId = ''__''
            \<and> drop (length docId - 2) docId = ''__'')
     \<and> length docId \<le> 1500"

text \<open>
  Whether \<^verbatim>\<open>doc(docId).set(data)\<close> is carried out. The controller takes
  \<^verbatim>\<open>admin.firestore()\<close> with its default settings, under which the client refuses a
  document that has a field whose value is \<^verbatim>\<open>undefined\<close>: here, a record one of whose
  five biometric hashes the request did not carry. The other fields of the record are
  always defined.
\<close>

definition firestore_accepts :: "string \<Rightarrow> newUserRecord \<Rightarrow> bool" where
  "firestore_accepts docId data \<longleftrightarrow>
     validDocumentId docId
     \<and> fingerprintHash (biometricHashes data) \<noteq> None
     \<and> irisHash (biometricHashes data) \<noteq> None
     \<and> facialHash (biometricHashes data) \<noteq> None
     \<and> voiceHash (biometricHashes data) \<noteq> None
     \<and> behavioralPattern (biometricHashes data) \<noteq> None"

text \<open>
  \<^verbatim>\<open>registerIdentity\<close>. The helper \<^verbatim>\<open>generateSuperIDHash\<close> is required from
  \<^verbatim>\<open>../utils/security/hashUtils\<close>, which is not among the sources, so it is the
  parameter \<open>gen\<close>: it gets the biometric object and the salt (\<open>None\<close> when
  \<^verbatim>\<open>cnicShards[0]\<close> is \<^verbatim>\<open>undefined\<close>) and either throws or returns the digest.
  \<open>now\<close> is the time the server stamps on the write, \<open>db\<close> the collection before the
  call; the result is the response and the collection after it.

  \<^item> \<^verbatim>\<open>cnicShards[0]\<close> throws a TypeError when \<^verbatim>\<open>cnicShards\<close> is missing, and is
    \<^verbatim>\<open>undefined\<close> on an empty array;
  \<^item> \<^verbatim>\<open>doc(superIDHash).set(newUserRecord)\<close> writes the document whether or not one
    exists under that id, unless Firestore refuses the id or the record
    (\<open>firestore_accepts\<close>): the call is inside the \<^verbatim>\<open>try\<close>, so a refusal is a throw;
  \<^item> every throw ends in the \<^verbatim>\<open>catch\<close>: status 500, nothing written.

  The store is taken to be available, and the record to be within the limit on the size
  of a document. A digest that is no document id is refused here and nothing is written.
  The code does the same, but for a digest with slashes that the client reads as the
  path of a document of a nested collection (an odd number of segments): that document,
  which is none of this collection, is written. The statements about a success below
  are about digests that are document ids.
\<close>

definition registerIdentity ::
  "(biometricData \<Rightarrow> string option \<Rightarrow> error + string) \<Rightarrow> nat \<Rightarrow> ledger \<Rightarrow> body
     \<Rightarrow> response \<times> ledger" where
  "registerIdentity gen now db req =
     (case req_cnicShards req of
        None \<Rightarrow> (InternalError TypeError, db)
      | Some shards \<Rightarrow>
          let uniqueSalt = (case shards of [] \<Rightarrow> None | s # _ \<Rightarrow> Some s);
              biometricData = \<lparr>fingerprintHash = fingerprintHash req,
                               irisHash = irisHash req,
                               facialHash = facialHash req,
                               voiceHash = voiceHash req,
                               behavioralPattern = behavioralPattern req\<rparr>
          in (case gen biometricData uniqueSalt of
                Inl e \<Rightarrow> (InternalError e, db)
              | Inr superIDHash \<Rightarrow>
                  let newUserRecord = \<lparr>superID = superIDHash,
                                       biometricHashes = biometricData,
                                       cnicShards = shards,
                                       status = ACTIVE,
                                       createdAt = now\<rparr>
                  in if firestore_accepts superIDHash newUserRecord
                     then (Created superIDHash, db(superIDHash \<mapsto> newUserRecord))
                     else (InternalError FirestoreError, db)))"

text \<open>
  Several requests, served one after the other: each is a time stamp and a body. A call
  reads nothing from the collection and writes once, so every way the calls can overlap
  is one order of their writes, that is one order of this list.
\<close>

fun registerAll ::
  "(biometricData \<Rightarrow> string option \<Rightarrow> error + string) \<Rightarrow> ledger \<Rightarrow> (nat \<times> body) list
     \<Rightarrow> response list \<times> ledger" where
  "registerAll gen db [] = ([], db)"
| "registerAll gen db ((now, req) # reqs) =
     (let (r, db') = registerIdentity gen now db req;
          (rs, db'') = registerAll gen db' reqs
      in (r # rs, db''))"

section \<open>The Biometric Fuser\<close>

text \<open>
  Modelled from the spec: \<^verbatim>\<open>BiometricBundle\<close> of section 3, which the missing helper
  works on: channel names with their digests, in the order the channels were inserted (an
  object's own property order). It is a mapping when the names are distinct.
\<close>

type_synonym BiometricBundle = "(string \<times> string) list"

text \<open>
  Modelled from the spec: the number of channels that are "present and non-empty"
  (section 3), the layers a bundle is counted by.
\<close>

definition populated :: "BiometricBundle \<Rightarrow> nat" where
  "populated bundle = length (filter (\<lambda>(channel, digest). digest \<noteq> []) bundle)"

text \<open>
  Modelled from the spec: the canonical form of a bundle, "sorting channel names
  lexicographically" (section 4.2). Names are compared character by character, by
  character code.
\<close>

definition canonicalize :: "BiometricBundle \<Rightarrow> BiometricBundle" where
  "canonicalize bundle = sort_key fst bundle"

text \<open>
  Modelled from the spec: \<^verbatim>\<open>fuse(bundle, salt)\<close> of section 4.2, the contract of the
  missing \<^verbatim>\<open>generateSuperIDHash\<close>. It fails with \<open>InsufficientLayers\<close> when fewer than
  \<open>minAuthLayers\<close> channels are populated; otherwise it canonicalizes the bundle,
  concatenates each channel's digest with its name, appends the salt and hashes the
  whole. The configured cryptographic hash is the parameter \<open>hash\<close>.
\<close>

definition fuse ::
  "(string \<Rightarrow> string) \<Rightarrow> nat \<Rightarrow> BiometricBundle \<Rightarrow> string \<Rightarrow> error + string" where
  "fuse hash minAuthLayers bundle salt =
     (if populated bundle < minAuthLayers then Inl InsufficientLayers
      else Inr (hash (concat (map (\<lambda>(channel, digest). digest @ channel)
                                 (canonicalize bundle)) @ salt)))"

text \<open>
  Modelled from the spec: the bundle a \<^verbatim>\<open>biometricData\<close> object stands for, "mapping
  from biometric-channel name to a hash digest" (section 3): its defined properties,
  under the property names and in the order of the controller's object literal.
\<close>

definition bundle_of :: "biometricData \<Rightarrow> BiometricBundle" where
  "bundle_of b =
     concat (map (\<lambda>(channel, v). case v of None \<Rightarrow> [] | Some digest \<Rightarrow> [(channel, digest)])
       [(''fingerprintHash'', fingerprintHash b),
        (''irisHash'', irisHash b),
        (''facialHash'', facialHash b),
        (''voiceHash'', voiceHash b),
        (''behavioralPattern'', behavioralPattern b)])"

text \<open>
  Modelled from the spec: \<^verbatim>\<open>generateSuperIDHash(biometricData, uniqueSalt)\<close> of the
  missing \<^verbatim>\<open>functions/utils/security/hashUtils\<close>, as \<open>fuse\<close> with the configured
  \<open>MIN_AUTH_LAYERS\<close>. \<open>fuse\<close> takes a salt of bytes; an \<^verbatim>\<open>undefined\<close> salt is outside
  its contract and is a throw here.
\<close>

definition generateSuperIDHash ::
  "(string \<Rightarrow> string) \<Rightarrow> biometricData \<Rightarrow> string option \<Rightarrow> error + string" where
  "generateSuperIDHash hash b uniqueSalt =
     (case uniqueSalt of
        None \<Rightarrow> Inl TypeError
      | Some salt \<Rightarrow> fuse hash MIN_AUTH_LAYERS (bundle_of b) salt)"

section \<open>A stand-in for the hash helper\<close>

text \<open>
  The theorems about the controller hold for every hash helper. Where one of them is
  instantiated or the controller is run on a concrete request, the helper is this
  stand-in: it throws on an undefined salt, and otherwise returns \<open>sid:\<close>, the defined
  hashes in the order of the object, a dot and the salt.
\<close>

abbreviation exampleHelper :: "biometricData \<Rightarrow> string option \<Rightarrow> error + string" where
  "exampleHelper \<equiv>
     \<lambda>b salt. case salt of
                 None \<Rightarrow> Inl TypeError
               | Some x \<Rightarrow>
                   Inr (''sid:'' @ concat (map (case_option [] id)
                          [fingerprintHash b, irisHash b, facialHash b, voiceHash b,
                           behavioralPattern b]) @ ''.'' @ x)"

section \<open>What a registration answers and stores\<close>

lemma firestore_accepts_record:
  "firestore_accepts docId
     \<lparr>superID = i, biometricHashes = b, cnicShards = shards, status = st, createdAt = t\<rparr>
   \<longleftrightarrow> validDocumentId docId \<and> fingerprintHash b \<noteq> None \<and> irisHash b \<noteq> None
       \<and> facialHash b \<noteq> None \<and> voiceHash b \<noteq> None \<and> behavioralPattern b \<noteq> None"
  by (simp add: firestore_accepts_def)

lemma registerIdentity_response:
  "fst (registerIdentity gen now db req) =
     (case req_cnicShards req of
        None \<Rightarrow> InternalError TypeError
      | Some shards \<Rightarrow>
          (case gen (biometricData.truncate req) (case shards of [] \<Rightarrow> None | s # _ \<Rightarrow> Some s) of
             Inl e \<Rightarrow> InternalError e
           | Inr h \<Rightarrow>
               if validDocumentId h \<and> fingerprintHash req \<noteq> None \<and> irisHash req \<noteq> None
                  \<and> facialHash req \<noteq> None \<and> voiceHash req \<noteq> None
                  \<and> behavioralPattern req \<noteq> None
               then Created h else InternalError FirestoreError))"
  by (auto simp add: registerIdentity_def firestore_accepts_record biometricData.truncate_def
        Let_def split: option.splits sum.splits)

lemma registerIdentity_write:
  assumes "fst (registerIdentity gen now0 db0 req) = Created h"
  shows "\<exists>shards. req_cnicShards req = Some shards
           \<and> registerIdentity gen now db req =
               (Created h,
                db(h \<mapsto> \<lparr>superID = h, biometricHashes = biometricData.truncate req,
                          cnicShards = shards, status = ACTIVE, createdAt = now\<rparr>))"
  using assms
  by (auto simp add: registerIdentity_def firestore_accepts_record biometricData.truncate_def Let_def
        split: option.splits sum.splits if_splits)

lemmas registerIdentity_eval =
  registerIdentity_def firestore_accepts_def validDocumentId_def

text \<open>
  Claim C10. The salt is the first element of the submitted shard array. Two requests that
  carry the same five biometric hashes and shard arrays with the same first element \<open>s\<close>
  get the same response, whatever the other shards, the time and the collection are. The
  helper is called with the five hashes and \<open>s\<close>: when it throws, the response is that
  error; a super id in a response is the digest it returned; and when it returns a digest
  that Firestore takes as a document id, for a request that carries all five hashes, the
  response is that digest as the super id.
  (\<open>biometricData.truncate\<close> keeps the five hashes of a request.)
\<close>

theorem registerIdentity_salt_is_first_shard:
  assumes "fingerprintHash req1 = fingerprintHash req2"
    and "irisHash req1 = irisHash req2"
    and "facialHash req1 = facialHash req2"
    and "voiceHash req1 = voiceHash req2"
    and "behavioralPattern req1 = behavioralPattern req2"
    and "req_cnicShards req1 = Some (s # rest1)"
    and "req_cnicShards req2 = Some (s # rest2)"
  shows "fst (registerIdentity gen now1 db1 req1) = fst (registerIdentity gen now2 db2 req2)
       \<and> (\<forall>e. gen (biometricData.truncate req1) (Some s) = Inl e \<longrightarrow>
              fst (registerIdentity gen now1 db1 req1) = InternalError e)
       \<and> (\<forall>h. fst (registerIdentity gen now1 db1 req1) = Created h \<longrightarrow>
              gen (biometricData.truncate req1) (Some s) = Inr h)
       \<and> (\<forall>h. gen (biometricData.truncate req1) (Some s) = Inr h \<and> validDocumentId h
                \<and> fingerprintHash req1 \<noteq> None \<and> irisHash req1 \<noteq> None
                \<and> facialHash req1 \<noteq> None \<and> voiceHash req1 \<noteq> None
                \<and> behavioralPattern req1 \<noteq> None \<longrightarrow>
              fst (registerIdentity gen now1 db1 req1) = Created h)"
proof -
  have t: "biometricData.truncate req1 = biometricData.truncate req2"
    using assms(1-5) by (simp add: biometricData.truncate_def)
  have r1: "fst (registerIdentity gen now1 db1 req1) =
      (case gen (biometricData.truncate req1) (Some s) of
         Inl e \<Rightarrow> InternalError e
       | Inr h \<Rightarrow>
           if validDocumentId h \<and> fingerprintHash req1 \<noteq> None \<and> irisHash req1 \<noteq> None
              \<and> facialHash req1 \<noteq> None \<and> voiceHash req1 \<noteq> None
              \<and> behavioralPattern req1 \<noteq> None
           then Created h else InternalError FirestoreError)"
    using assms(6) by (simp add: registerIdentity_response)
  have r2: "fst (registerIdentity gen now2 db2 req2) = fst (registerIdentity gen now1 db1 req1)"
    unfolding registerIdentity_response t assms(6,7) assms(1-5) by simp
  show ?thesis
    using r1 r2 by (auto split: sum.splits if_splits)
qed

theorem registerIdentity_salt_is_first_shard_witness:
  "fst (registerIdentity
         exampleHelper 1 Map.empty
         \<lparr>fingerprintHash = Some ''f1'', irisHash = Some ''i1'', facialHash = Some ''a1'',
          voiceHash = Some ''v1'', behavioralPattern = Some ''b1'',
          req_cnicShards = Some [''s1'', ''s2'', ''s3'']\<rparr>)
     = Created ''sid:f1i1a1v1b1.s1''
   \<and> fst (registerIdentity
         exampleHelper 2 Map.empty
         \<lparr>fingerprintHash = Some ''f1'', irisHash = Some ''i1'', facialHash = Some ''a1'',
          voiceHash = Some ''v1'', behavioralPattern = Some ''b1'',
          req_cnicShards = Some [''s1'', ''x8'', ''x9'', ''x7'']\<rparr>)
     = Created ''sid:f1i1a1v1b1.s1''
   \<and> validDocumentId ''sid:f1i1a1v1b1.s1''
   \<and> fst (registerIdentity
         (\<lambda>b salt. Inl InsufficientLayers) 1 Map.empty
         \<lparr>fingerprintHash = Some ''f1'', irisHash = Some ''i1'', facialHash = Some ''a1'',
          voiceHash = Some ''v1'', behavioralPattern = Some ''b1'',
          req_cnicShards = Some [''s1'', ''s2'', ''s3'']\<rparr>)
     = InternalError InsufficientLayers"
proof -
  let ?r1 = "\<lparr>fingerprintHash = Some ''f1'', irisHash = Some ''i1'', facialHash = Some ''a1'',
              voiceHash = Some ''v1'', behavioralPattern = Some ''b1'',
              req_cnicShards = Some [''s1'', ''s2'', ''s3'']\<rparr>"
  let ?r2 = "\<lparr>fingerprintHash = Some ''f1'', irisHash = Some ''i1'', facialHash = Some ''a1'',
              voiceHash = Some ''v1'', behavioralPattern = Some ''b1'',
              req_cnicShards = Some [''s1'', ''x8'', ''x9'', ''x7'']\<rparr>"
  have v: "validDocumentId ''sid:f1i1a1v1b1.s1''"
    by (simp add: validDocumentId_def)
  have g: "exampleHelper (biometricData.truncate ?r1) (Some ''s1'') = Inr ''sid:f1i1a1v1b1.s1''"
    by (simp add: biometricData.truncate_def)
  have p: "fingerprintHash ?r1 = fingerprintHash ?r2" "irisHash ?r1 = irisHash ?r2"
    "facialHash ?r1 = facialHash ?r2" "voiceHash ?r1 = voiceHash ?r2"
    "behavioralPattern ?r1 = behavioralPattern ?r2"
    "req_cnicShards ?r1 = Some (''s1'' # [''s2'', ''s3''])"
    "req_cnicShards ?r2 = Some (''s1'' # [''x8'', ''x9'', ''x7''])"
    by simp_all
  have n: "fingerprintHash ?r1 \<noteq> None" "irisHash ?r1 \<noteq> None" "facialHash ?r1 \<noteq> None"
    "voiceHash ?r1 \<noteq> None" "behavioralPattern ?r1 \<noteq> None"
    by simp_all
  note th = registerIdentity_salt_is_first_shard [OF p, of exampleHelper 1 Map.empty 2 Map.empty]
  have same: "fst (registerIdentity exampleHelper 1 Map.empty ?r1)
                = fst (registerIdentity exampleHelper 2 Map.empty ?r2)"
    using th by (rule conjunct1)
  have created: "fst (registerIdentity exampleHelper 1 Map.empty ?r1) = Created ''sid:f1i1a1v1b1.s1''"
    using th v g n by blast
  note th' = registerIdentity_salt_is_first_shard
    [OF p, of "\<lambda>b salt. Inl InsufficientLayers" 1 Map.empty 2 Map.empty]
  have "fst (registerIdentity (\<lambda>b salt. Inl InsufficientLayers) 1 Map.empty ?r1)
          = InternalError InsufficientLayers"
    using th' by blast
  with same created v show ?thesis
    by simp
qed

text \<open>
  Claim C3, as the code has it. A successful registration stores, under the super id, one
  record of exactly five fields: the super id, the five biometric hashes, the submitted
  shard array itself (the shard payloads, not their indices), the status \<open>ACTIVE\<close> and the
  time stamp; every other document is left as it was. The record has no lock state, and no
  secret is stored, since none is ever reconstructed.
\<close>

theorem registerIdentity_persists:
  assumes "registerIdentity gen now db req = (Created h, db')"
  shows "\<exists>shards. req_cnicShards req = Some shards
           \<and> db' = db(h \<mapsto> \<lparr>superID = h, biometricHashes = biometricData.truncate req,
                             cnicShards = shards, status = ACTIVE, createdAt = now\<rparr>)"
  using registerIdentity_write [of gen now db req h now db] assms
  by auto

theorem registerIdentity_persists_witness:
  "registerIdentity
     exampleHelper 7 Map.empty
     \<lparr>fingerprintHash = Some ''f1'', irisHash = Some ''i1'', facialHash = Some ''a1'',
      voiceHash = Some ''v1'', behavioralPattern = Some ''b1'',
      req_cnicShards = Some [''p1'', ''p2'', ''p3'', ''p4'']\<rparr>
   = (Created ''sid:f1i1a1v1b1.p1'',
      [''sid:f1i1a1v1b1.p1'' \<mapsto>
         \<lparr>superID = ''sid:f1i1a1v1b1.p1'',
          biometricHashes = \<lparr>fingerprintHash = Some ''f1'', irisHash = Some ''i1'',
                             facialHash = Some ''a1'', voiceHash = Some ''v1'',
                             behavioralPattern = Some ''b1''\<rparr>,
          cnicShards = [''p1'', ''p2'', ''p3'', ''p4''], status = ACTIVE, createdAt = 7\<rparr>])"
  using registerIdentity_persists
    [of exampleHelper 7 Map.empty
        "\<lparr>fingerprintHash = Some ''f1'', irisHash = Some ''i1'', facialHash = Some ''a1'',
          voiceHash = Some ''v1'', behavioralPattern = Some ''b1'',
          req_cnicShards = Some [''p1'', ''p2'', ''p3'', ''p4'']\<rparr>"
        "''sid:f1i1a1v1b1.p1''"
        "snd (registerIdentity
           exampleHelper 7 Map.empty
           \<lparr>fingerprintHash = Some ''f1'', irisHash = Some ''i1'', facialHash = Some ''a1'',
            voiceHash = Some ''v1'', behavioralPattern = Some ''b1'',
            req_cnicShards = Some [''p1'', ''p2'', ''p3'', ''p4'']\<rparr>)"]
  by (simp add: registerIdentity_eval biometricData.truncate_def)

text \<open>
  Claim C3, as the spec states it, fails: the shard payloads are persisted. A request with
  the three shards \<open>payload-A\<close>, \<open>payload-B\<close>, \<open>payload-C\<close> is registered, and the record
  stored under its super id holds these three payloads.
\<close>

theorem registerIdentity_persists_payloads:
  "fst (registerIdentity
         exampleHelper 1 Map.empty
         \<lparr>fingerprintHash = Some ''f1'', irisHash = Some ''i1'', facialHash = Some ''a1'',
          voiceHash = Some ''v1'', behavioralPattern = Some ''b1'',
          req_cnicShards = Some [''payload-A'', ''payload-B'', ''payload-C'']\<rparr>)
     = Created ''sid:f1i1a1v1b1.payload-A''
   \<and> map_option cnicShards
        (snd (registerIdentity
               exampleHelper 1 Map.empty
               \<lparr>fingerprintHash = Some ''f1'', irisHash = Some ''i1'', facialHash = Some ''a1'',
                voiceHash = Some ''v1'', behavioralPattern = Some ''b1'',
                req_cnicShards = Some [''payload-A'', ''payload-B'', ''payload-C'']\<rparr>)
           ''sid:f1i1a1v1b1.payload-A'')
     = Some [''payload-A'', ''payload-B'', ''payload-C'']"
  by (simp add: registerIdentity_eval)

section \<open>The fuser: layers and channel order\<close>

lemma same_mapping_mset:
  assumes "distinct (map fst b1)" "distinct (map fst b2)" "map_of b1 = map_of b2"
  shows "mset b1 = mset b2"
proof -
  have "set b1 = set b2"
    using assms by (simp add: map_of_inject_set)
  moreover have "distinct b1" "distinct b2"
    using assms(1,2) by (simp_all add: distinct_map)
  ultimately show ?thesis
    by (simp add: set_eq_iff_mset_eq_distinct)
qed

lemma canonicalize_same_mapping:
  assumes "distinct (map fst b1)" "distinct (map fst b2)" "map_of b1 = map_of b2"
  shows "canonicalize b1 = canonicalize b2"
  unfolding canonicalize_def
proof (rule sort_key_inj_key_eq)
  show "mset b1 = mset (sort_key fst b2)"
    using same_mapping_mset [OF assms] by simp
  show "inj_on fst (set b1)"
    using assms(1) by (simp add: distinct_map)
  show "sorted (map fst (sort_key fst b2))"
    by simp
qed

lemma populated_same_mapping:
  assumes "distinct (map fst b1)" "distinct (map fst b2)" "map_of b1 = map_of b2"
  shows "populated b1 = populated b2"
proof -
  have "populated b = size (filter_mset (\<lambda>(channel, digest). digest \<noteq> []) (mset b))" for b
    by (simp add: populated_def flip: mset_filter)
  then show ?thesis
    using same_mapping_mset [OF assms] by simp
qed

text \<open>
  Claim C6. Two bundles that are the same mapping from channels to digests (each with
  distinct channel names, in whatever order the channels were inserted), with at least
  \<open>minAuthLayers\<close> populated channels, are fused with the same salt to the same
  fingerprint, and the fusion succeeds. (In the instance after the theorem the hash is the
  identity, which shows the text that is hashed.)
\<close>

theorem fuse_order_independent:
  assumes "distinct (map fst b1)" and "distinct (map fst b2)"
    and "map_of b1 = map_of b2"
    and "minAuthLayers \<le> populated b1"
  shows "\<exists>fp. fuse hash minAuthLayers b1 salt = Inr fp \<and> fuse hash minAuthLayers b2 salt = Inr fp"
  using assms(4) canonicalize_same_mapping [OF assms(1-3)] populated_same_mapping [OF assms(1-3)]
  by (simp add: fuse_def)

theorem fuse_order_independent_witness:
  "distinct (map fst [(''voice'', ''v1''), (''face'', ''a1''), (''iris'', ''i1'')])
   \<and> distinct (map fst [(''iris'', ''i1''), (''voice'', ''v1''), (''face'', ''a1'')])
   \<and> map_of [(''voice'', ''v1''), (''face'', ''a1''), (''iris'', ''i1'')]
       = map_of [(''iris'', ''i1''), (''voice'', ''v1''), (''face'', ''a1'')]
   \<and> MIN_AUTH_LAYERS \<le> populated [(''voice'', ''v1''), (''face'', ''a1''), (''iris'', ''i1'')]
   \<and> fuse (\<lambda>x. x) MIN_AUTH_LAYERS [(''voice'', ''v1''), (''face'', ''a1''), (''iris'', ''i1'')] ''S''
       = Inr ''a1facei1irisv1voiceS''
   \<and> fuse (\<lambda>x. x) MIN_AUTH_LAYERS [(''iris'', ''i1''), (''voice'', ''v1''), (''face'', ''a1'')] ''S''
       = Inr ''a1facei1irisv1voiceS''"
proof -
  have m: "map_of [(''voice'', ''v1''), (''face'', ''a1''), (''iris'', ''i1'')]
             = map_of [(''iris'', ''i1''), (''voice'', ''v1''), (''face'', ''a1'')]"
    by (auto simp add: fun_eq_iff)
  have d1: "distinct (map fst [(''voice'', ''v1''), (''face'', ''a1''), (''iris'', ''i1'')])"
    by simp
  have d2: "distinct (map fst [(''iris'', ''i1''), (''voice'', ''v1''), (''face'', ''a1'')])"
    by simp
  have p: "MIN_AUTH_LAYERS \<le> populated [(''voice'', ''v1''), (''face'', ''a1''), (''iris'', ''i1'')]"
    by (simp add: MIN_AUTH_LAYERS_def populated_def)
  have f: "fuse (\<lambda>x. x) MIN_AUTH_LAYERS [(''voice'', ''v1''), (''face'', ''a1''), (''iris'', ''i1'')] ''S''
             = Inr ''a1facei1irisv1voiceS''"
    by (simp add: fuse_def MIN_AUTH_LAYERS_def populated_def canonicalize_def)
  from fuse_order_independent [OF d1 d2 m p, of "\<lambda>x. x" "''S''"] f m d1 d2 p
  show ?thesis by auto
qed

text \<open>
  Claim C7. A bundle with fewer than \<open>MIN_AUTH_LAYERS\<close> populated channels is refused by
  \<open>fuse\<close> with \<open>InsufficientLayers\<close>, whatever the salt. A registration whose five hashes
  make such a bundle is answered with an error and writes nothing: the error is
  \<open>InsufficientLayers\<close> when the request has a first shard, and the TypeError of the
  controller or of the undefined salt otherwise.
\<close>

theorem fuse_insufficient_layers:
  assumes "populated bundle < MIN_AUTH_LAYERS"
  shows "fuse hash MIN_AUTH_LAYERS bundle salt = Inl InsufficientLayers
       \<and> (bundle_of (biometricData.truncate req) = bundle \<longrightarrow>
            registerIdentity (generateSuperIDHash hash) now db req =
              (InternalError (case req_cnicShards req of
                                Some (s # rest) \<Rightarrow> InsufficientLayers
                              | _ \<Rightarrow> TypeError), db))"
  using assms
  by (simp add: fuse_def registerIdentity_def generateSuperIDHash_def
        biometricData.truncate_def Let_def split: option.splits list.splits)

theorem fuse_insufficient_layers_witness:
  "populated [(''fingerprintHash'', ''f1''), (''irisHash'', [])] < MIN_AUTH_LAYERS
   \<and> fuse (\<lambda>x. x) MIN_AUTH_LAYERS [(''fingerprintHash'', ''f1''), (''irisHash'', [])] ''s1''
       = Inl InsufficientLayers
   \<and> bundle_of \<lparr>fingerprintHash = Some ''f1'', irisHash = Some [], facialHash = None,
                voiceHash = None, behavioralPattern = None\<rparr>
       = [(''fingerprintHash'', ''f1''), (''irisHash'', [])]
   \<and> registerIdentity (generateSuperIDHash (\<lambda>x. x)) 1 Map.empty
       \<lparr>fingerprintHash = Some ''f1'', irisHash = Some [], facialHash = None,
        voiceHash = None, behavioralPattern = None,
        req_cnicShards = Some [''s1'', ''s2'', ''s3'']\<rparr>
       = (InternalError InsufficientLayers, Map.empty)"
proof -
  have p: "populated [(''fingerprintHash'', ''f1''), (''irisHash'', [])] < MIN_AUTH_LAYERS"
    by (simp add: populated_def MIN_AUTH_LAYERS_def)
  have b: "bundle_of (biometricData.truncate
              \<lparr>fingerprintHash = Some ''f1'', irisHash = Some [], facialHash = None,
               voiceHash = None, behavioralPattern = None,
               req_cnicShards = Some [''s1'', ''s2'', ''s3'']\<rparr>)
             = [(''fingerprintHash'', ''f1''), (''irisHash'', [])]"
    by (simp add: bundle_of_def biometricData.truncate_def)
  from fuse_insufficient_layers [OF p, of "\<lambda>x. x" "''s1''"
      "\<lparr>fingerprintHash = Some ''f1'', irisHash = Some [], facialHash = None,
        voiceHash = None, behavioralPattern = None,
        req_cnicShards = Some [''s1'', ''s2'', ''s3'']\<rparr>" 1 Map.empty] p b
  show ?thesis by (simp add: biometricData.truncate_def)
qed

section \<open>Registering a fingerprint that is already there\<close>

text \<open>
  Claim C1, as the spec states it, fails. The same request is sent twice to an empty
  collection. The first call registers it; the second call, finding the record of the
  first under the same super id, answers with the same success, not with an error, and
  writes the record again, with the new time stamp.
\<close>

theorem registerIdentity_twice_overwrites:
  "registerIdentity
     exampleHelper 1 Map.empty
     \<lparr>fingerprintHash = Some ''f1'', irisHash = Some ''i1'', facialHash = Some ''a1'',
      voiceHash = Some ''v1'', behavioralPattern = Some ''b1'',
      req_cnicShards = Some [''s1'', ''s2'', ''s3'']\<rparr>
   = (Created ''sid:f1i1a1v1b1.s1'',
      [''sid:f1i1a1v1b1.s1'' \<mapsto>
         \<lparr>superID = ''sid:f1i1a1v1b1.s1'',
          biometricHashes = \<lparr>fingerprintHash = Some ''f1'', irisHash = Some ''i1'',
                             facialHash = Some ''a1'', voiceHash = Some ''v1'',
                             behavioralPattern = Some ''b1''\<rparr>,
          cnicShards = [''s1'', ''s2'', ''s3''], status = ACTIVE, createdAt = 1\<rparr>])
   \<and> registerIdentity
     exampleHelper 2
     [''sid:f1i1a1v1b1.s1'' \<mapsto>
         \<lparr>superID = ''sid:f1i1a1v1b1.s1'',
          biometricHashes = \<lparr>fingerprintHash = Some ''f1'', irisHash = Some ''i1'',
                             facialHash = Some ''a1'', voiceHash = Some ''v1'',
                             behavioralPattern = Some ''b1''\<rparr>,
          cnicShards = [''s1'', ''s2'', ''s3''], status = ACTIVE, createdAt = 1\<rparr>]
     \<lparr>fingerprintHash = Some ''f1'', irisHash = Some ''i1'', facialHash = Some ''a1'',
      voiceHash = Some ''v1'', behavioralPattern = Some ''b1'',
      req_cnicShards = Some [''s1'', ''s2'', ''s3'']\<rparr>
   = (Created ''sid:f1i1a1v1b1.s1'',
      [''sid:f1i1a1v1b1.s1'' \<mapsto>
         \<lparr>superID = ''sid:f1i1a1v1b1.s1'',
          biometricHashes = \<lparr>fingerprintHash = Some ''f1'', irisHash = Some ''i1'',
                             facialHash = Some ''a1'', voiceHash = Some ''v1'',
                             behavioralPattern = Some ''b1''\<rparr>,
          cnicShards = [''s1'', ''s2'', ''s3''], status = ACTIVE, createdAt = 2\<rparr>])"
  by (simp add: registerIdentity_eval)

text \<open>
  Claim C1, as the code has it. When the collection already holds a record under the
  super id \<open>h\<close>, a registration whose request hashes to \<open>h\<close> (a first registration of it,
  on the empty collection, is answered with \<open>h\<close>) succeeds again with \<open>h\<close> and replaces
  that record by the one built from the request: the submitted hashes and shards, the
  status \<open>ACTIVE\<close> and the new time stamp. The collection still holds one record under
  \<open>h\<close>, and every other document is as it was.
\<close>

theorem registerIdentity_existing_replaced:
  assumes "db h = Some old"
    and "fst (registerIdentity gen now0 Map.empty req) = Created h"
  shows "\<exists>shards. req_cnicShards req = Some shards
           \<and> registerIdentity gen now db req =
               (Created h,
                db(h \<mapsto> \<lparr>superID = h, biometricHashes = biometricData.truncate req,
                          cnicShards = shards, status = ACTIVE, createdAt = now\<rparr>))"
  using registerIdentity_write [OF assms(2), of now db]
  by simp

theorem registerIdentity_existing_replaced_witness:
  "[''sid:f1i1a1v1b1.s1'' \<mapsto>
      \<lparr>superID = ''sid:f1i1a1v1b1.s1'',
       biometricHashes = \<lparr>fingerprintHash = Some ''f1'', irisHash = Some ''i1'',
                          facialHash = Some ''a1'', voiceHash = Some ''v1'',
                          behavioralPattern = Some ''b1''\<rparr>,
       cnicShards = [''s1'', ''s2'', ''s3''], status = FROZEN, createdAt = 1\<rparr>] ''sid:f1i1a1v1b1.s1''
   = Some \<lparr>superID = ''sid:f1i1a1v1b1.s1'',
           biometricHashes = \<lparr>fingerprintHash = Some ''f1'', irisHash = Some ''i1'',
                              facialHash = Some ''a1'', voiceHash = Some ''v1'',
                              behavioralPattern = Some ''b1''\<rparr>,
           cnicShards = [''s1'', ''s2'', ''s3''], status = FROZEN, createdAt = 1\<rparr>
   \<and> fst (registerIdentity
         exampleHelper 0 Map.empty
         \<lparr>fingerprintHash = Some ''f1'', irisHash = Some ''i1'', facialHash = Some ''a1'',
          voiceHash = Some ''v1'', behavioralPattern = Some ''b1'',
          req_cnicShards = Some [''s1'', ''s8'', ''s9'']\<rparr>)
     = Created ''sid:f1i1a1v1b1.s1''
   \<and> registerIdentity
       exampleHelper 5
       [''sid:f1i1a1v1b1.s1'' \<mapsto>
          \<lparr>superID = ''sid:f1i1a1v1b1.s1'',
           biometricHashes = \<lparr>fingerprintHash = Some ''f1'', irisHash = Some ''i1'',
                              facialHash = Some ''a1'', voiceHash = Some ''v1'',
                              behavioralPattern = Some ''b1''\<rparr>,
           cnicShards = [''s1'', ''s2'', ''s3''], status = FROZEN, createdAt = 1\<rparr>]
       \<lparr>fingerprintHash = Some ''f1'', irisHash = Some ''i1'', facialHash = Some ''a1'',
        voiceHash = Some ''v1'', behavioralPattern = Some ''b1'',
        req_cnicShards = Some [''s1'', ''s8'', ''s9'']\<rparr>
     = (Created ''sid:f1i1a1v1b1.s1'',
        [''sid:f1i1a1v1b1.s1'' \<mapsto>
           \<lparr>superID = ''sid:f1i1a1v1b1.s1'',
            biometricHashes = \<lparr>fingerprintHash = Some ''f1'', irisHash = Some ''i1'',
                               facialHash = Some ''a1'', voiceHash = Some ''v1'',
                               behavioralPattern = Some ''b1''\<rparr>,
            cnicShards = [''s1'', ''s8'', ''s9''], status = ACTIVE, createdAt = 5\<rparr>])"
  using registerIdentity_existing_replaced
    [of "[''sid:f1i1a1v1b1.s1'' \<mapsto>
          \<lparr>superID = ''sid:f1i1a1v1b1.s1'',
           biometricHashes = \<lparr>fingerprintHash = Some ''f1'', irisHash = Some ''i1'',
                              facialHash = Some ''a1'', voiceHash = Some ''v1'',
                              behavioralPattern = Some ''b1''\<rparr>,
           cnicShards = [''s1'', ''s2'', ''s3''], status = FROZEN, createdAt = 1\<rparr>]"
        "''sid:f1i1a1v1b1.s1''"
        "\<lparr>superID = ''sid:f1i1a1v1b1.s1'',
           biometricHashes = \<lparr>fingerprintHash = Some ''f1'', irisHash = Some ''i1'',
                              facialHash = Some ''a1'', voiceHash = Some ''v1'',
                              behavioralPattern = Some ''b1''\<rparr>,
           cnicShards = [''s1'', ''s2'', ''s3''], status = FROZEN, createdAt = 1\<rparr>"
        exampleHelper 0
        "\<lparr>fingerprintHash = Some ''f1'', irisHash = Some ''i1'', facialHash = Some ''a1'',
          voiceHash = Some ''v1'', behavioralPattern = Some ''b1'',
          req_cnicShards = Some [''s1'', ''s8'', ''s9'']\<rparr>" 5]
  by (simp add: registerIdentity_eval biometricData.truncate_def)

section \<open>Several registrations of one fingerprint\<close>

lemma registerAll_responses:
  assumes "\<forall>(now, req) \<in> set schedule. fst (registerIdentity gen now0 db0 req) = Created h"
  shows "fst (registerAll gen db schedule) = replicate (length schedule) (Created h)"
  using assms
proof (induction schedule arbitrary: db)
  case Nil
  show ?case by simp
next
  case (Cons call schedule)
  obtain now req where call: "call = (now, req)"
    by (cases call)
  have "fst (registerIdentity gen now db req) = Created h"
    using Cons.prems by (simp add: call registerIdentity_response)
  moreover have "fst (registerAll gen db' schedule) = replicate (length schedule) (Created h)" for db'
    using Cons.prems by (intro Cons.IH) simp
  ultimately show ?case
    by (simp add: call split_beta)
qed

lemma registerAll_ledger:
  assumes "\<forall>(now, req) \<in> set schedule. fst (registerIdentity gen now0 db0 req) = Created h"
    and "schedule \<noteq> []"
  shows "\<exists>now req shards. last schedule = (now, req) \<and> req_cnicShards req = Some shards
           \<and> snd (registerAll gen db schedule) =
               db(h \<mapsto> \<lparr>superID = h, biometricHashes = biometricData.truncate req,
                         cnicShards = shards, status = ACTIVE, createdAt = now\<rparr>)"
  using assms
proof (induction schedule arbitrary: db)
  case Nil
  then show ?case by simp
next
  case (Cons call schedule)
  obtain now req where call: "call = (now, req)"
    by (cases call)
  have "fst (registerIdentity gen now0 db0 req) = Created h"
    using Cons.prems(1) by (simp add: call)
  from registerIdentity_write [OF this, of now db]
  obtain shards where shards: "req_cnicShards req = Some shards"
    and step: "registerIdentity gen now db req =
       (Created h, db(h \<mapsto> \<lparr>superID = h, biometricHashes = biometricData.truncate req,
                          cnicShards = shards, status = ACTIVE, createdAt = now\<rparr>))"
    by blast
  show ?case
  proof (cases "schedule = []")
    case True
    with shards step show ?thesis
      by (simp add: call)
  next
    case False
    have "\<forall>(now, req) \<in> set schedule. fst (registerIdentity gen now0 db0 req) = Created h"
      using Cons.prems(1) by simp
    from Cons.IH [OF this False] obtain now' req' shards'
      where l: "last schedule = (now', req')" and s: "req_cnicShards req' = Some shards'"
        and r: "snd (registerAll gen
                  (db(h \<mapsto> \<lparr>superID = h, biometricHashes = biometricData.truncate req,
                            cnicShards = shards, status = ACTIVE, createdAt = now\<rparr>)) schedule) =
                (db(h \<mapsto> \<lparr>superID = h, biometricHashes = biometricData.truncate req,
                            cnicShards = shards, status = ACTIVE, createdAt = now\<rparr>))
                  (h \<mapsto> \<lparr>superID = h, biometricHashes = biometricData.truncate req',
                            cnicShards = shards', status = ACTIVE, createdAt = now'\<rparr>)"
      by blast
    have "snd (registerAll gen db (call # schedule)) =
            db(h \<mapsto> \<lparr>superID = h, biometricHashes = biometricData.truncate req',
                      cnicShards = shards', status = ACTIVE, createdAt = now'\<rparr>)"
      by (simp add: call step r split_beta)
    with l s False show ?thesis
      by simp
  qed
qed

text \<open>
  Claim C2, as the spec states it, fails. Two calls with the same five hashes and the same
  first shard, hence the same super id, and different further shards, hence distinct
  records. In either order of the two writes both calls succeed, and the collection keeps
  the record of the call that wrote last.
\<close>

theorem registerAll_same_fingerprint_both_succeed:
  "registerAll
     exampleHelper Map.empty
     [(1, \<lparr>fingerprintHash = Some ''f1'', irisHash = Some ''i1'', facialHash = Some ''a1'',
           voiceHash = Some ''v1'', behavioralPattern = Some ''b1'',
           req_cnicShards = Some [''s1'', ''s2'', ''s3'']\<rparr>),
      (2, \<lparr>fingerprintHash = Some ''f1'', irisHash = Some ''i1'', facialHash = Some ''a1'',
           voiceHash = Some ''v1'', behavioralPattern = Some ''b1'',
           req_cnicShards = Some [''s1'', ''s4'', ''s5'']\<rparr>)]
   = ([Created ''sid:f1i1a1v1b1.s1'', Created ''sid:f1i1a1v1b1.s1''],
      [''sid:f1i1a1v1b1.s1'' \<mapsto>
         \<lparr>superID = ''sid:f1i1a1v1b1.s1'',
          biometricHashes = \<lparr>fingerprintHash = Some ''f1'', irisHash = Some ''i1'',
                             facialHash = Some ''a1'', voiceHash = Some ''v1'',
                             behavioralPattern = Some ''b1''\<rparr>,
          cnicShards = [''s1'', ''s4'', ''s5''], status = ACTIVE, createdAt = 2\<rparr>])
   \<and> registerAll
     exampleHelper Map.empty
     [(1, \<lparr>fingerprintHash = Some ''f1'', irisHash = Some ''i1'', facialHash = Some ''a1'',
           voiceHash = Some ''v1'', behavioralPattern = Some ''b1'',
           req_cnicShards = Some [''s1'', ''s4'', ''s5'']\<rparr>),
      (2, \<lparr>fingerprintHash = Some ''f1'', irisHash = Some ''i1'', facialHash = Some ''a1'',
           voiceHash = Some ''v1'', behavioralPattern = Some ''b1'',
           req_cnicShards = Some [''s1'', ''s2'', ''s3'']\<rparr>)]
   = ([Created ''sid:f1i1a1v1b1.s1'', Created ''sid:f1i1a1v1b1.s1''],
      [''sid:f1i1a1v1b1.s1'' \<mapsto>
         \<lparr>superID = ''sid:f1i1a1v1b1.s1'',
          biometricHashes = \<lparr>fingerprintHash = Some ''f1'', irisHash = Some ''i1'',
                             facialHash = Some ''a1'', voiceHash = Some ''v1'',
                             behavioralPattern = Some ''b1''\<rparr>,
          cnicShards = [''s1'', ''s2'', ''s3''], status = ACTIVE, createdAt = 2\<rparr>])"
  by (simp add: registerIdentity_eval)

text \<open>
  Claim C2, as the code has it. Take any number of requests that all hash to the super id
  \<open>h\<close> (a first registration of each is answered with \<open>h\<close>), and serve them in any order,
  at any times: \<open>schedule\<close> lists the calls in the order of their writes, each with its
  time stamp. Then every call succeeds with \<open>h\<close>, and afterwards the collection holds under
  \<open>h\<close> the record of the call that wrote last, every other document being as it was.
\<close>

theorem registerAll_every_call_succeeds:
  assumes "\<forall>req \<in> set requests. fst (registerIdentity gen now0 Map.empty req) = Created h"
    and "mset (map snd schedule) = mset requests"
  shows "fst (registerAll gen db schedule) = replicate (length requests) (Created h)
       \<and> (requests \<noteq> [] \<longrightarrow>
            (\<exists>now req shards. last schedule = (now, req) \<and> req_cnicShards req = Some shards
               \<and> snd (registerAll gen db schedule) =
                   db(h \<mapsto> \<lparr>superID = h, biometricHashes = biometricData.truncate req,
                             cnicShards = shards, status = ACTIVE, createdAt = now\<rparr>)))"
proof -
  have "set (map snd schedule) = set requests"
    using assms(2) by (rule mset_eq_setD)
  then have all: "\<forall>(now, req) \<in> set schedule.
      fst (registerIdentity gen now0 Map.empty req) = Created h"
    using assms(1) by force
  have len: "length schedule = length requests"
    using assms(2) by (metis length_map mset_eq_length)
  then have "schedule \<noteq> []" if "requests \<noteq> []"
    using that by auto
  with registerAll_responses [OF all] registerAll_ledger [OF all] len show ?thesis
    by simp
qed

theorem registerAll_every_call_succeeds_witness:
  "fst (registerAll
         exampleHelper Map.empty
         [(4, \<lparr>fingerprintHash = Some ''f1'', irisHash = Some ''i1'', facialHash = Some ''a1'',
               voiceHash = Some ''v1'', behavioralPattern = Some ''b1'',
               req_cnicShards = Some [''s1'', ''s6'', ''s7'']\<rparr>),
          (5, \<lparr>fingerprintHash = Some ''f1'', irisHash = Some ''i1'', facialHash = Some ''a1'',
               voiceHash = Some ''v1'', behavioralPattern = Some ''b1'',
               req_cnicShards = Some [''s1'', ''s2'', ''s3'']\<rparr>),
          (6, \<lparr>fingerprintHash = Some ''f1'', irisHash = Some ''i1'', facialHash = Some ''a1'',
               voiceHash = Some ''v1'', behavioralPattern = Some ''b1'',
               req_cnicShards = Some [''s1'', ''s4'', ''s5'']\<rparr>)])
     = [Created ''sid:f1i1a1v1b1.s1'', Created ''sid:f1i1a1v1b1.s1'', Created ''sid:f1i1a1v1b1.s1'']
   \<and> snd (registerAll
         exampleHelper Map.empty
         [(4, \<lparr>fingerprintHash = Some ''f1'', irisHash = Some ''i1'', facialHash = Some ''a1'',
               voiceHash = Some ''v1'', behavioralPattern = Some ''b1'',
               req_cnicShards = Some [''s1'', ''s6'', ''s7'']\<rparr>),
          (5, \<lparr>fingerprintHash = Some ''f1'', irisHash = Some ''i1'', facialHash = Some ''a1'',
               voiceHash = Some ''v1'', behavioralPattern = Some ''b1'',
               req_cnicShards = Some [''s1'', ''s2'', ''s3'']\<rparr>),
          (6, \<lparr>fingerprintHash = Some ''f1'', irisHash = Some ''i1'', facialHash = Some ''a1'',
               voiceHash = Some ''v1'', behavioralPattern = Some ''b1'',
               req_cnicShards = Some [''s1'', ''s4'', ''s5'']\<rparr>)])
     = [''sid:f1i1a1v1b1.s1'' \<mapsto>
          \<lparr>superID = ''sid:f1i1a1v1b1.s1'',
           biometricHashes = \<lparr>fingerprintHash = Some ''f1'', irisHash = Some ''i1'',
                              facialHash = Some ''a1'', voiceHash = Some ''v1'',
                              behavioralPattern = Some ''b1''\<rparr>,
           cnicShards = [''s1'', ''s4'', ''s5''], status = ACTIVE, createdAt = 6\<rparr>]"
proof -
  let ?A = "\<lparr>fingerprintHash = Some ''f1'', irisHash = Some ''i1'', facialHash = Some ''a1'',
             voiceHash = Some ''v1'', behavioralPattern = Some ''b1'',
             req_cnicShards = Some [''s1'', ''s2'', ''s3'']\<rparr>"
  let ?B = "\<lparr>fingerprintHash = Some ''f1'', irisHash = Some ''i1'', facialHash = Some ''a1'',
             voiceHash = Some ''v1'', behavioralPattern = Some ''b1'',
             req_cnicShards = Some [''s1'', ''s4'', ''s5'']\<rparr>"
  let ?C = "\<lparr>fingerprintHash = Some ''f1'', irisHash = Some ''i1'', facialHash = Some ''a1'',
             voiceHash = Some ''v1'', behavioralPattern = Some ''b1'',
             req_cnicShards = Some [''s1'', ''s6'', ''s7'']\<rparr>"
  have all: "\<forall>req \<in> set [?A, ?B, ?C]. fst (registerIdentity exampleHelper 0 Map.empty req) = Created ''sid:f1i1a1v1b1.s1''"
    by (simp add: registerIdentity_response validDocumentId_def biometricData.truncate_def)
  have perm: "mset (map snd [(4::nat, ?C), (5, ?A), (6, ?B)]) = mset [?A, ?B, ?C]"
    by simp
  from registerAll_every_call_succeeds [OF all perm, of Map.empty]
  show ?thesis
    by (auto simp add: biometricData.truncate_def)
qed

section \<open>The number of shards\<close>

text \<open>
  Claim C5. A registration that presents fewer shards than the threshold is to fail and to
  write nothing. The controller reads \<^verbatim>\<open>cnicShards[0]\<close> and never the number of shards:
  a request with all five hashes and two shards, below \<open>CNIC_SHARDS_REQUIRED\<close>, is
  registered and its record written. The shard array of that record is one that the
  validator of \<^verbatim>\<open>UserSchema.cnicShards\<close>, the schema of this very record, refuses.
\<close>

theorem registerIdentity_two_shards_registered:
  "registerIdentity
     exampleHelper 1 Map.empty
     \<lparr>fingerprintHash = Some ''f1'', irisHash = Some ''i1'', facialHash = Some ''a1'',
      voiceHash = Some ''v1'', behavioralPattern = Some ''b1'',
      req_cnicShards = Some [''s1'', ''s2'']\<rparr>
   = (Created ''sid:f1i1a1v1b1.s1'',
      [''sid:f1i1a1v1b1.s1'' \<mapsto>
         \<lparr>superID = ''sid:f1i1a1v1b1.s1'',
          biometricHashes = \<lparr>fingerprintHash = Some ''f1'', irisHash = Some ''i1'',
                             facialHash = Some ''a1'', voiceHash = Some ''v1'',
                             behavioralPattern = Some ''b1''\<rparr>,
          cnicShards = [''s1'', ''s2''], status = ACTIVE, createdAt = 1\<rparr>])
   \<and> length [''s1'', ''s2''] < CNIC_SHARDS_REQUIRED
   \<and> \<not> UserSchema_cnicShards_validate [''s1'', ''s2'']"
  by (simp add: registerIdentity_eval CNIC_SHARDS_REQUIRED_def CNIC_SHARDS_TOTAL_def
        UserSchema_cnicShards_validate_def)

section \<open>The status of a record\<close>

lemma registerIdentity_status:
  "map_option status (snd (registerIdentity gen now db req) k)
     \<in> {map_option status (db k), Some ACTIVE}"
  by (auto simp add: registerIdentity_def Let_def split: option.splits sum.splits)

lemma registerAll_status:
  "map_option status (snd (registerAll gen db schedule) k)
     \<in> {map_option status (db k), Some ACTIVE}"
proof (induction schedule arbitrary: db)
  case Nil
  show ?case by simp
next
  case (Cons call schedule)
  obtain now req where call: "call = (now, req)"
    by (cases call)
  define db' where "db' = snd (registerIdentity gen now db req)"
  have step: "map_option status (db' k) \<in> {map_option status (db k), Some ACTIVE}"
    unfolding db'_def by (rule registerIdentity_status)
  have "snd (registerAll gen db (call # schedule)) = snd (registerAll gen db' schedule)"
    by (simp add: call db'_def split_beta)
  with Cons.IH [of db'] step show ?case
    by auto
qed

text \<open>
  Claim C8, as the spec states it, fails: a record that is \<open>FROZEN\<close> does not stay so.
  The collection holds a \<open>FROZEN\<close> record; a registration that hashes to its super id
  succeeds, and the record under that id is \<open>ACTIVE\<close> afterwards.
\<close>

theorem registerIdentity_unfreezes:
  "map_option status
     ([''sid:f1i1a1v1b1.s1'' \<mapsto>
         \<lparr>superID = ''sid:f1i1a1v1b1.s1'',
          biometricHashes = \<lparr>fingerprintHash = Some ''f1'', irisHash = Some ''i1'',
                             facialHash = Some ''a1'', voiceHash = Some ''v1'',
                             behavioralPattern = Some ''b1''\<rparr>,
          cnicShards = [''s1'', ''s2'', ''s3'', ''s4'', ''s5''], status = FROZEN,
          createdAt = 1\<rparr>] ''sid:f1i1a1v1b1.s1'')
     = Some FROZEN
   \<and> fst (registerIdentity exampleHelper 9
       [''sid:f1i1a1v1b1.s1'' \<mapsto>
         \<lparr>superID = ''sid:f1i1a1v1b1.s1'',
          biometricHashes = \<lparr>fingerprintHash = Some ''f1'', irisHash = Some ''i1'',
                             facialHash = Some ''a1'', voiceHash = Some ''v1'',
                             behavioralPattern = Some ''b1''\<rparr>,
          cnicShards = [''s1'', ''s2'', ''s3'', ''s4'', ''s5''], status = FROZEN,
          createdAt = 1\<rparr>]
       \<lparr>fingerprintHash = Some ''f1'', irisHash = Some ''i1'', facialHash = Some ''a1'',
        voiceHash = Some ''v1'', behavioralPattern = Some ''b1'',
        req_cnicShards = Some [''s1'', ''s2'', ''s3'', ''s4'', ''s5'']\<rparr>)
     = Created ''sid:f1i1a1v1b1.s1''
   \<and> map_option status
       (snd (registerIdentity exampleHelper 9
          [''sid:f1i1a1v1b1.s1'' \<mapsto>
            \<lparr>superID = ''sid:f1i1a1v1b1.s1'',
             biometricHashes = \<lparr>fingerprintHash = Some ''f1'', irisHash = Some ''i1'',
                                facialHash = Some ''a1'', voiceHash = Some ''v1'',
                                behavioralPattern = Some ''b1''\<rparr>,
             cnicShards = [''s1'', ''s2'', ''s3'', ''s4'', ''s5''], status = FROZEN,
             createdAt = 1\<rparr>]
          \<lparr>fingerprintHash = Some ''f1'', irisHash = Some ''i1'', facialHash = Some ''a1'',
           voiceHash = Some ''v1'', behavioralPattern = Some ''b1'',
           req_cnicShards = Some [''s1'', ''s2'', ''s3'', ''s4'', ''s5'']\<rparr>)
        ''sid:f1i1a1v1b1.s1'')
     = Some ACTIVE"
  by (simp add: registerIdentity_eval)

text \<open>
  Claim C8, as the code has it. The status of a record is one of the three values of the
  schema, and no order of transitions is enforced: there is no operation that requests a
  transition and none that refuses one. The one operation that writes a status,
  \<^verbatim>\<open>registerIdentity\<close>, writes \<open>ACTIVE\<close>. So after any sequence of registrations every
  document has the status it had before, or is \<open>ACTIVE\<close> (no registration makes a record
  \<open>FROZEN\<close> or \<open>PENDING_VERIFICATION\<close>), and the record of a successful registration is
  \<open>ACTIVE\<close> whatever the status of the record it replaces.
\<close>

theorem registerIdentity_status_always_active:
  "map_option status (snd (registerAll gen db schedule) k)
     \<in> {map_option status (db k), Some ACTIVE}
   \<and> (fst (registerIdentity gen now db req) = Created h \<longrightarrow>
        map_option status (snd (registerIdentity gen now db req) h) = Some ACTIVE)"
  using registerAll_status [of gen db schedule k]
  by (auto simp add: registerIdentity_def Let_def split: option.splits sum.splits if_splits)

theorem registerIdentity_status_always_active_witness:
  "fst (registerIdentity exampleHelper 4
       [''sid:f1i1a1v1b1.s1'' \<mapsto>
          \<lparr>superID = ''sid:f1i1a1v1b1.s1'',
           biometricHashes = \<lparr>fingerprintHash = Some ''f1'', irisHash = Some ''i1'',
                              facialHash = Some ''a1'', voiceHash = Some ''v1'',
                              behavioralPattern = Some ''b1''\<rparr>,
           cnicShards = [''s1''], status = PENDING_VERIFICATION, createdAt = 1\<rparr>,
        ''sid:f2i2a2v2b2.s2'' \<mapsto>
          \<lparr>superID = ''sid:f2i2a2v2b2.s2'',
           biometricHashes = \<lparr>fingerprintHash = Some ''f2'', irisHash = Some ''i2'',
                              facialHash = Some ''a2'', voiceHash = Some ''v2'',
                              behavioralPattern = Some ''b2''\<rparr>,
           cnicShards = [''s2''], status = FROZEN, createdAt = 2\<rparr>]
       \<lparr>fingerprintHash = Some ''f1'', irisHash = Some ''i1'', facialHash = Some ''a1'',
        voiceHash = Some ''v1'', behavioralPattern = Some ''b1'',
        req_cnicShards = Some [''s1'', ''s6'']\<rparr>)
     = Created ''sid:f1i1a1v1b1.s1''
   \<and> map (\<lambda>k. map_option status
          (snd (registerIdentity exampleHelper 4
             [''sid:f1i1a1v1b1.s1'' \<mapsto>
                \<lparr>superID = ''sid:f1i1a1v1b1.s1'',
                 biometricHashes = \<lparr>fingerprintHash = Some ''f1'', irisHash = Some ''i1'',
                                    facialHash = Some ''a1'', voiceHash = Some ''v1'',
                                    behavioralPattern = Some ''b1''\<rparr>,
                 cnicShards = [''s1''], status = PENDING_VERIFICATION, createdAt = 1\<rparr>,
              ''sid:f2i2a2v2b2.s2'' \<mapsto>
                \<lparr>superID = ''sid:f2i2a2v2b2.s2'',
                 biometricHashes = \<lparr>fingerprintHash = Some ''f2'', irisHash = Some ''i2'',
                                    facialHash = Some ''a2'', voiceHash = Some ''v2'',
                                    behavioralPattern = Some ''b2''\<rparr>,
                 cnicShards = [''s2''], status = FROZEN, createdAt = 2\<rparr>]
             \<lparr>fingerprintHash = Some ''f1'', irisHash = Some ''i1'', facialHash = Some ''a1'',
              voiceHash = Some ''v1'', behavioralPattern = Some ''b1'',
              req_cnicShards = Some [''s1'', ''s6'']\<rparr>) k))
       [''sid:f1i1a1v1b1.s1'', ''sid:f2i2a2v2b2.s2'', ''sid:f3i3a3v3b3.s3'']
     = [Some ACTIVE, Some FROZEN, None]"
  using registerIdentity_status_always_active
    [of exampleHelper
        "[''sid:f1i1a1v1b1.s1'' \<mapsto>
          \<lparr>superID = ''sid:f1i1a1v1b1.s1'',
           biometricHashes = \<lparr>fingerprintHash = Some ''f1'', irisHash = Some ''i1'',
                              facialHash = Some ''a1'', voiceHash = Some ''v1'',
                              behavioralPattern = Some ''b1''\<rparr>,
           cnicShards = [''s1''], status = PENDING_VERIFICATION, createdAt = 1\<rparr>,
        ''sid:f2i2a2v2b2.s2'' \<mapsto>
          \<lparr>superID = ''sid:f2i2a2v2b2.s2'',
           biometricHashes = \<lparr>fingerprintHash = Some ''f2'', irisHash = Some ''i2'',
                              facialHash = Some ''a2'', voiceHash = Some ''v2'',
                              behavioralPattern = Some ''b2''\<rparr>,
           cnicShards = [''s2''], status = FROZEN, createdAt = 2\<rparr>]"
        "[]" "''sid:f1i1a1v1b1.s1''" 4
        "\<lparr>fingerprintHash = Some ''f1'', irisHash = Some ''i1'', facialHash = Some ''a1'',
          voiceHash = Some ''v1'', behavioralPattern = Some ''b1'',
          req_cnicShards = Some [''s1'', ''s6'']\<rparr>"
        "''sid:f1i1a1v1b1.s1''"]
  by (simp add: registerIdentity_eval)

end
